theory Spec2Isabelle
  imports Main
begin

section \<open>JavaScript values and exceptions\<close>

text \<open>
  Event arguments reach the extension manager as an untyped tuple of JavaScript values.
  The resolvers only read properties, call methods without arguments and test for
  \<open>null\<close>/\<open>undefined\<close>, so a value is \<open>undefined\<close>, \<open>null\<close>, a boolean, a string, an
  object (its own properties, in order) or a function without arguments that returns a
  fixed value (\<open>first()\<close>, \<open>isDMBased()\<close>).
\<close>

datatype jsval =
    JUndefined
  | JNull
  | JBool bool
  | JStr string
  | JObj "(string \<times> jsval) list"
  | JFun jsval

text \<open>A computation either throws a value (\<open>Inl\<close>) or yields one (\<open>Inr\<close>).\<close>

type_synonym 'a js = "jsval + 'a"

definition TypeError :: jsval where
  "TypeError = JObj [(''name'', JStr ''TypeError'')]"

definition nullish :: "jsval \<Rightarrow> bool" where
  "nullish v = (v = JUndefined \<or> v = JNull)"

text \<open>Sequencing: a throw in the first computation is the throw of the whole.\<close>

definition then_js :: "'a js \<Rightarrow> ('a \<Rightarrow> 'b js) \<Rightarrow> 'b js" where
  "then_js m k = (case m of Inl e \<Rightarrow> Inl e | Inr v \<Rightarrow> k v)"

text \<open>
  \<open>o.p\<close>: reading a property of \<open>undefined\<close> or \<open>null\<close> throws a TypeError; an object
  yields the property or \<open>undefined\<close>; the primitives and functions of this model have
  none of the properties the resolvers read (\<open>guild\<close>, \<open>guildId\<close>, \<open>id\<close>, \<open>message\<close>,
  \<open>guildMember\<close>, \<open>first\<close>, \<open>isDMBased\<close>).
\<close>

fun get_prop :: "jsval \<Rightarrow> string \<Rightarrow> jsval js" where
  "get_prop JUndefined p = Inl TypeError"
| "get_prop JNull p = Inl TypeError"
| "get_prop (JObj fs) p = Inr (case map_of fs p of None \<Rightarrow> JUndefined | Some v \<Rightarrow> v)"
| "get_prop v p = Inr JUndefined"

text \<open>\<open>o.m()\<close>: calling what is not a function throws a TypeError.\<close>

definition call_method :: "jsval \<Rightarrow> string \<Rightarrow> jsval js" where
  "call_method v m =
     then_js (get_prop v m) (\<lambda>f. case f of JFun r \<Rightarrow> Inr r | _ \<Rightarrow> Inl TypeError)"

text \<open>
  \<open>o?.rest\<close>: when \<open>o\<close> is \<open>null\<close> or \<open>undefined\<close> the whole rest of the chain is skipped
  and the chain is \<open>undefined\<close>.
\<close>

definition opt_chain :: "jsval \<Rightarrow> (jsval \<Rightarrow> jsval js) \<Rightarrow> jsval js" where
  "opt_chain v rest = (if nullish v then Inr JUndefined else rest v)"

text \<open>\<open>a ?? b\<close>: \<open>b\<close> is evaluated only when \<open>a\<close> is \<open>null\<close> or \<open>undefined\<close>.\<close>

definition nullish_or :: "jsval js \<Rightarrow> jsval js \<Rightarrow> jsval js" where
  "nullish_or a b = then_js a (\<lambda>v. if nullish v then b else Inr v)"

text \<open>Array destructuring \<open>[, , x]\<close>: a missing position is \<open>undefined\<close>.\<close>

definition arg :: "jsval list \<Rightarrow> nat \<Rightarrow> jsval" where
  "arg args i = (if i < length args then args ! i else JUndefined)"

section \<open>The guild id resolvers\<close>

type_synonym Resolver = "jsval list \<Rightarrow> jsval js"

text \<open>\<open>([data]) => data.guildId\<close>\<close>

definition resolver_applicationCommandPermissions :: Resolver where
  "resolver_applicationCommandPermissions args = get_prop (arg args 0) ''guildId''"

text \<open>\<open>([data]) => data?.guild.id ?? undefined\<close>\<close>

definition resolver_autoModeration :: Resolver where
  "resolver_autoModeration args =
     nullish_or
       (opt_chain (arg args 0) (\<lambda>d. then_js (get_prop d ''guild'') (\<lambda>g. get_prop g ''id'')))
       (Inr JUndefined)"

text \<open>\<open>([data]) => data?.guild?.id ?? data?.guildId ?? undefined\<close>\<close>

definition resolver_message :: Resolver where
  "resolver_message args =
     nullish_or
       (nullish_or
          (opt_chain (arg args 0) (\<lambda>d. then_js (get_prop d ''guild'')
             (\<lambda>g. opt_chain g (\<lambda>g. get_prop g ''id''))))
          (opt_chain (arg args 0) (\<lambda>d. get_prop d ''guildId'')))
       (Inr JUndefined)"

text \<open>\<open>([data]) => data.first()?.guildId ?? undefined\<close>\<close>

definition resolver_messageDeleteBulk :: Resolver where
  "resolver_messageDeleteBulk args =
     nullish_or
       (then_js (call_method (arg args 0) ''first'')
          (\<lambda>m. opt_chain m (\<lambda>m. get_prop m ''guildId'')))
       (Inr JUndefined)"

text \<open>\<open>([data]) => (data.isDMBased() ? undefined : data.guildId)\<close>; the condition is
  taken by its truthiness.\<close>

definition truthy :: "jsval \<Rightarrow> bool" where
  "truthy v = (case v of JUndefined \<Rightarrow> False | JNull \<Rightarrow> False | JBool b \<Rightarrow> b
     | JStr s \<Rightarrow> s \<noteq> [] | JObj _ \<Rightarrow> True | JFun _ \<Rightarrow> True)"

definition resolver_channel :: Resolver where
  "resolver_channel args =
     then_js (call_method (arg args 0) ''isDMBased'')
       (\<lambda>dm. if truthy dm then Inr JUndefined else get_prop (arg args 0) ''guildId'')"

text \<open>\<open>([data]) => data?.guild?.id ?? undefined\<close>\<close>

definition resolver_optGuildOptId :: Resolver where
  "resolver_optGuildOptId args =
     nullish_or
       (opt_chain (arg args 0) (\<lambda>d. then_js (get_prop d ''guild'')
          (\<lambda>g. opt_chain g (\<lambda>g. get_prop g ''id''))))
       (Inr JUndefined)"

text \<open>\<open>([data]) => data?.message.guildId ?? undefined\<close>\<close>

definition resolver_messageReaction :: Resolver where
  "resolver_messageReaction args =
     nullish_or
       (opt_chain (arg args 0) (\<lambda>d. then_js (get_prop d ''message'')
          (\<lambda>m. get_prop m ''guildId'')))
       (Inr JUndefined)"

text \<open>\<open>([data]) => data?.guildId ?? undefined\<close>\<close>

definition resolver_messageReactionRemoveAll :: Resolver where
  "resolver_messageReactionRemoveAll args =
     nullish_or (opt_chain (arg args 0) (\<lambda>d. get_prop d ''guildId'')) (Inr JUndefined)"

text \<open>\<open>([, data]) => data.id ?? undefined\<close>\<close>

definition resolver_secondId :: Resolver where
  "resolver_secondId args = nullish_or (get_prop (arg args 1) ''id'') (Inr JUndefined)"

text \<open>\<open>([data]) => data.id ?? undefined\<close>\<close>

definition resolver_guild :: Resolver where
  "resolver_guild args = nullish_or (get_prop (arg args 0) ''id'') (Inr JUndefined)"

text \<open>\<open>([data]) => data.guild?.id ?? undefined\<close>\<close>

definition resolver_guildOptId :: Resolver where
  "resolver_guildOptId args =
     nullish_or
       (then_js (get_prop (arg args 0) ''guild'') (\<lambda>g. opt_chain g (\<lambda>g. get_prop g ''id'')))
       (Inr JUndefined)"

text \<open>\<open>([data]) => data.guild?.id ?? data.guildId ?? undefined\<close>\<close>

definition resolver_guildScheduledEvent :: Resolver where
  "resolver_guildScheduledEvent args =
     nullish_or
       (nullish_or
          (then_js (get_prop (arg args 0) ''guild'') (\<lambda>g. opt_chain g (\<lambda>g. get_prop g ''id'')))
          (get_prop (arg args 0) ''guildId''))
       (Inr JUndefined)"

text \<open>\<open>([data, data2]) => data?.guild?.id ?? data2.guild?.id ?? undefined\<close>\<close>

definition resolver_update :: Resolver where
  "resolver_update args =
     nullish_or
       (nullish_or
          (opt_chain (arg args 0) (\<lambda>d. then_js (get_prop d ''guild'')
             (\<lambda>g. opt_chain g (\<lambda>g. get_prop g ''id''))))
          (then_js (get_prop (arg args 1) ''guild'') (\<lambda>g. opt_chain g (\<lambda>g. get_prop g ''id''))))
       (Inr JUndefined)"

text \<open>\<open>([data, data2]) =>
  data?.guildMember?.guild.id ?? data2?.guildMember?.guild.id ?? undefined\<close>\<close>

definition member_guild_id :: "jsval \<Rightarrow> jsval js" where
  "member_guild_id v =
     opt_chain v (\<lambda>d. then_js (get_prop d ''guildMember'')
       (\<lambda>m. opt_chain m (\<lambda>m. then_js (get_prop m ''guild'') (\<lambda>g. get_prop g ''id''))))"

definition resolver_threadMemberUpdate :: Resolver where
  "resolver_threadMemberUpdate args =
     nullish_or
       (nullish_or (member_guild_id (arg args 0)) (member_guild_id (arg args 1)))
       (Inr JUndefined)"

text \<open>\<open>([, , , data]) => data.guildId ?? undefined\<close>\<close>

definition resolver_command :: Resolver where
  "resolver_command args = nullish_or (get_prop (arg args 3) ''guildId'') (Inr JUndefined)"

text \<open>\<open>() => null\<close>\<close>

definition resolver_global :: Resolver where
  "resolver_global args = Inr JNull"

text \<open>The table, entry by entry and in the order of the source.\<close>

definition guildIdResolvers :: "(string list \<times> Resolver) list" where
  "guildIdResolvers =
    [ ([''applicationCommandPermissionsUpdate''], resolver_applicationCommandPermissions),
      ([''autoModerationActionExecution'', ''autoModerationRuleCreate'',
        ''autoModerationRuleDelete'', ''autoModerationRuleUpdate''], resolver_autoModeration),
      ([''messageCreate'', ''normalMessageCreate'', ''normalMessageDelete'',
        ''normalMessageUpdate'', ''messageDelete'', ''messageUpdate'', ''interactionCreate''],
       resolver_message),
      ([''messageDeleteBulk''], resolver_messageDeleteBulk),
      ([''channelCreate'', ''channelDelete'', ''channelUpdate'', ''channelPinsUpdate''],
       resolver_channel),
      ([''emojiCreate'', ''emojiDelete'', ''emojiUpdate''], resolver_optGuildOptId),
      ([''messageReactionAdd'', ''messageReactionRemove'', ''messageReactionRemoveEmoji''],
       resolver_messageReaction),
      ([''messageReactionRemoveAll''], resolver_messageReactionRemoveAll),
      ([''guildAuditLogEntryCreate'', ''guildMembersChunk'', ''threadListSync''],
       resolver_secondId),
      ([''guildAvailable'', ''guildCreate'', ''guildDelete'', ''guildUpdate'',
        ''guildUnavailable'', ''guildIntegrationsUpdate''], resolver_guild),
      ([''guildBanAdd'', ''guildBanRemove'', ''guildMemberAdd'', ''guildMemberRemove'',
        ''guildMemberUpdate'', ''guildMemberAvailable'', ''inviteCreate'', ''inviteDelete'',
        ''roleCreate'', ''roleDelete''], resolver_guildOptId),
      ([''guildScheduledEventCreate'', ''guildScheduledEventDelete'',
        ''guildScheduledEventUserAdd'', ''guildScheduledEventUserRemove''],
       resolver_guildScheduledEvent),
      ([''guildScheduledEventUpdate''], resolver_message),
      ([''presenceUpdate'', ''roleUpdate'', ''stageInstanceUpdate'', ''stickerUpdate'',
        ''threadUpdate'', ''voiceStateUpdate''], resolver_update),
      ([''stageInstanceDelete'', ''stageInstanceCreate'', ''stickerCreate'', ''stickerDelete'',
        ''threadCreate'', ''threadDelete''], resolver_optGuildOptId),
      ([''threadMemberUpdate''], resolver_threadMemberUpdate),
      ([''typingStart'', ''webhookUpdate''], resolver_guildOptId),
      ([''command''], resolver_command),
      ([''cacheSweep'', ''debug'', ''error'', ''warn'', ''invalidated'', ''ready'',
        ''shardReady'', ''shardDisconnect'', ''shardError'', ''shardReconnecting'',
        ''shardResume''], resolver_global) ]"

section \<open>The logger\<close>

datatype level = Debug | Info | Warn | Error

text \<open>One call of the logger: its level and the values passed to it.\<close>

type_synonym log_entry = "level \<times> jsval list"

section \<open>getGuildIdResolversMap\<close>

text \<open>
  The two nested loops of \<open>getGuildIdResolversMap\<close>: every event of every entry is set
  in the map, a later entry replacing an earlier one, with two warnings when the event
  was already there. The result is the map and the warnings in the order they are logged.
\<close>

type_synonym resolver_map = "string \<rightharpoonup> Resolver"

fun set_events :: "Resolver \<Rightarrow> string list \<Rightarrow> resolver_map \<times> log_entry list
    \<Rightarrow> resolver_map \<times> log_entry list" where
  "set_events r [] acc = acc"
| "set_events r (event # events) (m, ws) =
     set_events r events
       (m(event \<mapsto> r),
        (if m event \<noteq> None
         then ws @ [(Warn, [JStr ''Overlapping Guild ID Resolvers detected: '', JStr event]),
                    (Warn, [JStr ''This seems to be an internal bug. Please report this issue to the developers.''])]
         else ws))"

fun build_resolvers_map :: "(string list \<times> Resolver) list \<Rightarrow> resolver_map \<times> log_entry list
    \<Rightarrow> resolver_map \<times> log_entry list" where
  "build_resolvers_map [] acc = acc"
| "build_resolvers_map ((events, r) # rest) acc =
     build_resolvers_map rest (set_events r events acc)"

definition getGuildIdResolversMap :: "resolver_map \<times> log_entry list" where
  "getGuildIdResolversMap = build_resolvers_map guildIdResolvers (Map.empty, [])"

section \<open>The host state\<close>

text \<open>
  The per-guild and system configuration of the ConfigurationManager, as far as
  \<open>isEnabled\<close> reads them; an absent (\<open>undefined\<close>) field is \<open>None\<close>.
\<close>

record guild_extensions =
  enabled :: "bool option"
  disabled_extensions :: "string list option"

record guild_config =
  extensions :: "guild_extensions option"

record system_extensions =
  default_mode :: "string option"

record system_config =
  sys_extensions :: "system_extensions option"

text \<open>
  What a handler can read and change: the configuration, the log, and the rest of the
  application (\<open>world\<close>), of which nothing is assumed.
\<close>

record 'w host =
  config :: "string \<rightharpoonup> guild_config"
  systemConfig :: system_config
  logs :: "log_entry list"
  world :: 'w

definition logger :: "level \<Rightarrow> jsval list \<Rightarrow> 'w host \<Rightarrow> 'w host" where
  "logger l vs s = s\<lparr>logs := logs s @ [(l, vs)]\<rparr>"

text \<open>
  What awaiting a call gives: a value, a thrown exception (a rejected promise), or
  nothing, when the call never settles.
\<close>

datatype outcome = Returned jsval | Threw jsval | Pending

type_synonym 'w handler = "jsval list \<Rightarrow> 'w host \<Rightarrow> outcome \<times> 'w host"

section \<open>isEnabled\<close>

definition of_opt_bool :: "bool option \<Rightarrow> jsval" where
  "of_opt_bool b = (case b of None \<Rightarrow> JUndefined | Some v \<Rightarrow> JBool v)"

definition of_opt_str :: "string option \<Rightarrow> jsval" where
  "of_opt_str b = (case b of None \<Rightarrow> JUndefined | Some v \<Rightarrow> JStr v)"

text \<open>\<open>config[guildId]?.extensions ?? {}\<close>: the guild's extension settings, both fields
  absent when the guild or its \<open>extensions\<close> section is. The keys of the configuration
  are guild ids, which are strings (\<open>Snowflake\<close>); a \<open>guildId\<close> of another type, which the
  type of \<open>isEnabled\<close> excludes, is taken to have no entry.\<close>

definition guild_extensions_of :: "'w host \<Rightarrow> jsval \<Rightarrow> guild_extensions" where
  "guild_extensions_of s guildId =
     (case (case guildId of JStr g \<Rightarrow> config s g | _ \<Rightarrow> None) of
        None \<Rightarrow> \<lparr>enabled = None, disabled_extensions = None\<rparr>
      | Some g \<Rightarrow> (case extensions g of
          None \<Rightarrow> \<lparr>enabled = None, disabled_extensions = None\<rparr>
        | Some e \<Rightarrow> e))"

text \<open>\<open>systemConfig.extensions ?? {}\<close>\<close>

definition system_default_mode :: "'w host \<Rightarrow> string option" where
  "system_default_mode s =
     (case sys_extensions (systemConfig s) of None \<Rightarrow> None | Some e \<Rightarrow> default_mode e)"

text \<open>\<open>!disabled_extensions?.includes(extensionId)\<close>: an absent list gives
  \<open>!undefined\<close>, that is, \<open>true\<close>.\<close>

definition not_disabled :: "string list option \<Rightarrow> string \<Rightarrow> bool" where
  "not_disabled ds extensionId =
     (case ds of None \<Rightarrow> True | Some l \<Rightarrow> extensionId \<notin> set l)"

text \<open>The method logs \<open>default_mode\<close> and \<open>enabled\<close> at debug level, then decides.\<close>

definition isEnabled :: "string \<Rightarrow> jsval \<Rightarrow> 'w host \<Rightarrow> bool \<times> 'w host" where
  "isEnabled extensionId guildId s =
     (let ge = guild_extensions_of s guildId;
          dm = system_default_mode s;
          s' = logger Debug [of_opt_str dm, of_opt_bool (enabled ge)] s
      in (((case enabled ge of None \<Rightarrow> dm = Some ''enable_all'' | Some b \<Rightarrow> b)
           \<and> not_disabled (disabled_extensions ge) extensionId), s'))"

section \<open>wrapHandler\<close>

text \<open>
  The function \<open>wrapHandler\<close> returns an \<open>async\<close> function; the model gives what awaiting
  a call of it yields. The steps are those of the source, in its order:
  \<^enum> \<open>this.guildIdResolvers.get(eventName)?.(args)\<close>, outside any \<open>try\<close>: an exception
    of the resolver leaves the wrapped handler;
  \<^enum> \<open>guildId === undefined\<close>: one error is logged and the call returns;
  \<^enum> \<open>guildId !== null && !this.isEnabled(extensionId, guildId)\<close>: a debug line is
    logged and the call returns (\<open>isEnabled\<close> is not called for \<open>null\<close>);
  \<^enum> the info line, then \<open>await handler(...args)\<close> inside \<open>try\<close>: an exception is logged
    twice at error level and the call returns \<open>undefined\<close>, with \<open>bail\<close> by the
    \<open>return\<close> in the \<open>catch\<close> block and without it by reaching the end of the function.
\<close>

definition resolve_guild :: "string \<Rightarrow> jsval list \<Rightarrow> jsval js" where
  "resolve_guild eventName args =
     (case fst getGuildIdResolversMap eventName of
        None \<Rightarrow> Inr JUndefined
      | Some resolver \<Rightarrow> resolver args)"

definition guarded_call :: "string \<Rightarrow> 'w handler \<Rightarrow> bool \<Rightarrow> 'w handler" where
  "guarded_call extensionId handler bail args s =
     (case handler args s of
        (Returned v, s') \<Rightarrow> (Returned v, s')
      | (Pending, s') \<Rightarrow> (Pending, s')
      | (Threw e, s') \<Rightarrow>
          (let s'' = logger Error [e]
                 (logger Error
                    [JStr (''Extension error: the extension '' @ [CHR 0x27] @ extensionId
                           @ [CHR 0x27] @ '' seems to cause this exception'')] s')
           in if bail then (Returned JUndefined, s'') else (Returned JUndefined, s'')))"

definition wrapHandler :: "string \<Rightarrow> string \<Rightarrow> 'w handler \<Rightarrow> bool \<Rightarrow> 'w handler" where
  "wrapHandler extensionId eventName handler bail args s =
     (case resolve_guild eventName args of
        Inl e \<Rightarrow> (Threw e, s)
      | Inr guildId \<Rightarrow>
          if guildId = JUndefined
          then (Returned JUndefined,
                logger Error [JStr ''Invalid event or failed to fetch guild: '', JStr eventName] s)
          else
            (case (if guildId \<noteq> JNull
                   then (let (en, s1) = isEnabled extensionId guildId s in (\<not> en, s1))
                   else (False, s)) of
               (True, s1) \<Rightarrow>
                 (Returned JUndefined,
                  logger Debug [JStr ''Extension isn't enabled in this guild: '', guildId] s1)
             | (False, s1) \<Rightarrow>
                 guarded_call extensionId handler bail args
                   (logger Info [JStr (''Running: '' @ eventName @ '' ['' @ extensionId @ '']'')] s1)))"

section \<open>Registering and dispatching listeners\<close>

text \<open>
  \<open>loadEventClass\<close> registers the wrapped \<open>execute\<close> method of an event class of the
  extension under the event's name; \<open>bail\<close> is not passed, so it is \<open>undefined\<close>.
\<close>

type_synonym 'w listeners = "(string \<times> 'w handler) list"

definition loadEventClass :: "string \<Rightarrow> string \<Rightarrow> 'w handler \<Rightarrow> 'w listeners \<Rightarrow> 'w listeners" where
  "loadEventClass extensionId event_name execute ls =
     ls @ [(event_name, wrapHandler extensionId event_name execute False)]"

text \<open>
  Modelled from the spec: the client's \<open>addEventListener\<close> and its dispatch are not among
  the sources. Section 5 of the specification: the listeners subscribed to an event kind
  are invoked in their subscription order, each run to completion before the next
  begins. An exception that leaves a listener reaches the host, and a listener that
  never settles never lets the next one begin: either ends the dispatch.
\<close>

fun emit :: "'w listeners \<Rightarrow> string \<Rightarrow> jsval list \<Rightarrow> 'w host \<Rightarrow> outcome \<times> 'w host" where
  "emit [] eventName args s = (Returned JUndefined, s)"
| "emit ((name, listener) # ls) eventName args s =
     (if name = eventName
      then (case listener args s of
              (Returned v, s') \<Rightarrow> emit ls eventName args s'
            | (Threw e, s') \<Rightarrow> (Threw e, s')
            | (Pending, s') \<Rightarrow> (Pending, s'))
      else emit ls eventName args s)"

text \<open>A run of the host over successive event occurrences (event kind and arguments),
  until an exception reaches it.\<close>

fun emit_all :: "'w listeners \<Rightarrow> (string \<times> jsval list) list \<Rightarrow> 'w host \<Rightarrow> outcome \<times> 'w host" where
  "emit_all ls [] s = (Returned JUndefined, s)"
| "emit_all ls ((eventName, args) # occurrences) s =
     (case emit ls eventName args s of
        (Returned v, s') \<Rightarrow> emit_all ls occurrences s'
      | (Threw e, s') \<Rightarrow> (Threw e, s')
      | (Pending, s') \<Rightarrow> (Pending, s'))"

section \<open>Activation: postConstruct\<close>

text \<open>
  An extension as the manager uses it: its id and name and its two hooks. The
  post-construction hook is synchronous, the registration hook is awaited; either may
  throw, and the exception leaves the manager's method, which has no \<open>try\<close>.
\<close>

record 'w extension =
  ext_id :: string
  ext_name :: string
  ext_postConstruct :: "'w host \<Rightarrow> outcome \<times> 'w host"
  ext_register :: "'w host \<Rightarrow> outcome \<times> 'w host"

fun postConstruct :: "'w extension list \<Rightarrow> 'w host \<Rightarrow> outcome \<times> 'w host" where
  "postConstruct [] s = (Returned JUndefined, s)"
| "postConstruct (extension # rest) s =
     (case ext_postConstruct extension
             (logger Debug [JStr (''Setting up extension: '' @ ext_id extension @ '' (''
                                   @ ext_name extension @ '')'')] s) of
        (Returned v, s1) \<Rightarrow>
          (case ext_register extension s1 of
             (Returned v', s2) \<Rightarrow> postConstruct rest s2
           | (Threw e, s2) \<Rightarrow> (Threw e, s2)
           | (Pending, s2) \<Rightarrow> (Pending, s2))
      | (Threw e, s1) \<Rightarrow> (Threw e, s1)
      | (Pending, s1) \<Rightarrow> (Pending, s1))"

text \<open>
  To observe the order of the hooks: an extension whose hooks do nothing but record
  their call in the world, which is then the list of the hooks called so far.
\<close>

datatype hook = PostConstructed string | Registered string

definition recording_extension :: "string \<Rightarrow> hook list extension" where
  "recording_extension i =
     \<lparr> ext_id = i, ext_name = i,
       ext_postConstruct = (\<lambda>s. (Returned JUndefined, s\<lparr>world := world s @ [PostConstructed i]\<rparr>)),
       ext_register = (\<lambda>s. (Returned JUndefined, s\<lparr>world := world s @ [Registered i]\<rparr>)) \<rparr>"

text \<open>The order the specification describes: every post-construction hook, in load
  order, then every registration hook, in load order.\<close>

definition spec_two_phase_order :: "string list \<Rightarrow> hook list" where
  "spec_two_phase_order ids = map PostConstructed ids @ map Registered ids"

text \<open>The order of a single pass: each extension's two hooks, one extension after
  the other.\<close>

definition single_pass_order :: "string list \<Rightarrow> hook list" where
  "single_pass_order ids = concat (map (\<lambda>i. [PostConstructed i, Registered i]) ids)"


text \<open>An empty host, for examples.\<close>

definition empty_host :: "'w \<Rightarrow> 'w host" where
  "empty_host w = \<lparr> config = Map.empty, systemConfig = \<lparr> sys_extensions = None \<rparr>,
                    logs = [], world = w \<rparr>"

text \<open>The state in which \<open>wrapHandler\<close> calls the handler, for a resolved guild id that
  passes the checks: after the debug line of \<open>isEnabled\<close> (not called for \<open>null\<close>) and
  the info line.\<close>

definition invocation_state :: "string \<Rightarrow> string \<Rightarrow> jsval \<Rightarrow> 'w host \<Rightarrow> 'w host" where
  "invocation_state extensionId eventName guildId s =
     logger Info [JStr (''Running: '' @ eventName @ '' ['' @ extensionId @ '']'')]
       (if guildId = JNull then s else snd (isEnabled extensionId guildId s))"

text \<open>The pairs of event and resolver of a table, in its order.\<close>

definition table_pairs :: "(string list \<times> Resolver) list \<Rightarrow> (string \<times> Resolver) list" where
  "table_pairs tbl = concat (map (\<lambda>(es, r). map (\<lambda>e. (e, r)) es) tbl)"

text \<open>
  Example data: a host whose system default is \<open>enable_all\<close>, where guild \<open>g1\<close> has
  switched extensions off, guild \<open>g2\<close> has disabled the extension \<open>welcomer\<close>, and any other
  guild has no settings; a handler that counts its calls in the world and then throws;
  the arguments of a message event of a guild.
\<close>

definition example_host :: "nat host" where
  "example_host =
     \<lparr> config = [''g1'' \<mapsto> \<lparr> extensions = Some \<lparr> enabled = Some False, disabled_extensions = None \<rparr> \<rparr>,
                 ''g2'' \<mapsto> \<lparr> extensions = Some \<lparr> enabled = None, disabled_extensions = Some [''welcomer''] \<rparr> \<rparr>],
       systemConfig = \<lparr> sys_extensions = Some \<lparr> default_mode = Some ''enable_all'' \<rparr> \<rparr>,
       logs = [], world = 0 \<rparr>"

definition counting_thrower :: "nat handler" where
  "counting_thrower args s = (Threw (JStr ''boom''), s\<lparr>world := Suc (world s)\<rparr>)"

definition message_in :: "string \<Rightarrow> jsval list" where
  "message_in g = [JObj [(''id'', JStr ''m1''), (''guildId'', JStr g)]]"

section \<open>loadExtensions\<close>

text \<open>
  Paths are joined with a separator; the normalisation of \<open>path.join\<close> and
  \<open>path.resolve\<close> plays no part for a directory and a plain name.
\<close>

definition path_join :: "string \<Rightarrow> string \<Rightarrow> string" where
  "path_join a b = a @ ''/'' @ b"

definition path_resolve :: "string \<Rightarrow> string \<Rightarrow> string" where
  "path_resolve a b = a @ ''/'' @ b"

text \<open>What the loader reads of a parsed manifest: its \<open>id\<close> and its optional \<open>main\<close>.\<close>

record metadata =
  meta_id :: string
  meta_main :: "string option"

text \<open>
  What the loader calls and the sources do not contain, as parameters: the file system
  (\<open>readdir\<close>, \<open>lstat(...).isDirectory()\<close>, \<open>existsSync\<close>, \<open>readFile\<close>), \<open>JSON.parse\<close>,
  the schema \<open>ExtensionMetadataSchema.safeParse\<close> (\<open>Inl\<close> is the error of a result
  without success), the dynamic \<open>import\<close> of the entry module with the construction of
  the extension, and the two calls into the ConfigurationManager.
\<close>

record 'w loader_env =
  readdir :: "string \<Rightarrow> string list js"
  lstat_isDirectory :: "string \<Rightarrow> bool js"
  existsSync :: "string \<Rightarrow> bool"
  readFile :: "string \<Rightarrow> string js"
  JSON_parse :: "string \<Rightarrow> jsval js"
  safeParse :: "jsval \<Rightarrow> jsval + metadata"
  import_and_construct ::
    "string \<Rightarrow> string \<Rightarrow> string \<Rightarrow> metadata \<Rightarrow> 'w host \<Rightarrow> 'w extension js \<times> 'w host"
  registerExtensionConfig :: "'w extension list \<Rightarrow> 'w host \<Rightarrow> outcome \<times> 'w host"
  manualBoot :: "'w host \<Rightarrow> outcome \<times> 'w host"

text \<open>How a call of the loader ends: it returns, the process exits with a code
  (\<open>process.exit\<close>), an exception leaves it, or it never settles.\<close>

datatype load_result = Completed | Exited int | Raised jsval | Unsettled

definition loadExtensionInitializer :: "'w loader_env \<Rightarrow> string \<Rightarrow> string \<Rightarrow> string
    \<Rightarrow> metadata \<Rightarrow> 'w host \<Rightarrow> 'w extension js \<times> 'w host" where
  "loadExtensionInitializer env extensionPath extensionName extensionId meta s =
     import_and_construct env extensionPath extensionName extensionId meta
       (logger Debug [JStr ''Attempting to load extension initializer: '',
                      JStr extensionName, JStr extensionId] s)"

definition no_manifest_message :: "string \<Rightarrow> string" where
  "no_manifest_message extensionName =
     ''Extension '' @ extensionName @ '' does not have a '' @ [CHR 0x22] @ ''extension.json''
       @ [CHR 0x22] @ '' file!''"

text \<open>The debug line on entering a candidate directory.\<close>

definition log_loading :: "string \<Rightarrow> string \<Rightarrow> 'w host \<Rightarrow> 'w host" where
  "log_loading extensionsPath extensionName s =
     logger Debug [JStr ''Loading extension from directory: '',
                   JStr (path_resolve extensionsPath extensionName)] s"

text \<open>
  The \<open>for\<close> loop of \<open>loadExtensions\<close> over the names \<open>readdir\<close> returned, with the list
  \<open>this.extensions\<close> and the host state. A name that is no directory, or is
  \<open>.extbuilds\<close>, is skipped; a directory without \<open>extension.json\<close> logs an error and
  exits the process with code \<open>-1\<close>; a manifest the schema rejects logs two errors and
  the loop continues; otherwise the extension is imported, constructed and pushed.
\<close>

fun load_entries :: "'w loader_env \<Rightarrow> string \<Rightarrow> string list \<Rightarrow> 'w extension list \<Rightarrow> 'w host
    \<Rightarrow> load_result \<times> 'w extension list \<times> 'w host" where
  "load_entries env extensionsPath [] exts s = (Completed, exts, s)"
| "load_entries env extensionsPath (extensionName # rest) exts s =
     (case lstat_isDirectory env (path_resolve extensionsPath extensionName) of
        Inl e \<Rightarrow> (Raised e, exts, s)
      | Inr isDirectory \<Rightarrow>
          if \<not> isDirectory \<or> extensionName = ''.extbuilds''
          then load_entries env extensionsPath rest exts s
          else if \<not> existsSync env
                    (path_join (path_resolve extensionsPath extensionName) ''extension.json'')
          then (Exited (- 1), exts,
                logger Error [JStr (no_manifest_message extensionName)]
                  (log_loading extensionsPath extensionName s))
          else
            (case then_js (readFile env
                    (path_join (path_resolve extensionsPath extensionName) ''extension.json''))
                    (JSON_parse env) of
               Inl e \<Rightarrow>
                 (Raised e, exts, log_loading extensionsPath extensionName s)
             | Inr json \<Rightarrow>
                 (case safeParse env json of
                    Inl err \<Rightarrow>
                      load_entries env extensionsPath rest exts
                        (logger Error [err]
                          (logger Error [JStr (''Error parsing extension metadata for extension ''
                                               @ extensionName)]
                            (log_loading extensionsPath extensionName s)))
                  | Inr data \<Rightarrow>
                      (case loadExtensionInitializer env
                              (path_resolve (path_resolve extensionsPath extensionName)
                                 (case meta_main data of None \<Rightarrow> ''./src/index.js'' | Some m \<Rightarrow> m))
                              extensionName (meta_id data) data
                              (log_loading extensionsPath extensionName s) of
                         (Inl e, s') \<Rightarrow> (Raised e, exts, s')
                       | (Inr initializer, s') \<Rightarrow>
                           load_entries env extensionsPath rest (exts @ [initializer])
                             (logger Info [JStr (''Loaded extension: '' @ meta_id data @ '' (''
                                                 @ extensionName @ '')'')] s')))))"

text \<open>\<open>onInitializationComplete\<close>: the extensions' configuration is registered, then the
  configuration service is booted.\<close>

definition onInitializationComplete :: "'w loader_env \<Rightarrow> 'w extension list \<Rightarrow> 'w host
    \<Rightarrow> outcome \<times> 'w host" where
  "onInitializationComplete env exts s =
     (case registerExtensionConfig env exts s of
        (Returned v, s') \<Rightarrow> manualBoot env s'
      | (Threw e, s') \<Rightarrow> (Threw e, s')
      | (Pending, s') \<Rightarrow> (Pending, s'))"

text \<open>\<open>!this.extensionsPath\<close>: the directory is not set, or is the empty string.\<close>

definition unset :: "string option \<Rightarrow> bool" where
  "unset extensionsPath = (case extensionsPath of None \<Rightarrow> True | Some p \<Rightarrow> p = [])"

definition loadExtensions :: "'w loader_env \<Rightarrow> string option \<Rightarrow> 'w extension list \<Rightarrow> 'w host
    \<Rightarrow> load_result \<times> 'w extension list \<times> 'w host" where
  "loadExtensions env extensionsPath exts s =
     (case extensionsPath of
        None \<Rightarrow> (Completed, exts, s)
      | Some path \<Rightarrow>
          if path = [] then (Completed, exts, s)
          else
            (case readdir env path of
               Inl e \<Rightarrow> (Raised e, exts, s)
             | Inr names \<Rightarrow>
                 (case load_entries env path names exts s of
                    (Completed, exts', s') \<Rightarrow>
                      (case onInitializationComplete env exts' s' of
                         (Returned v, s'') \<Rightarrow> (Completed, exts', s'')
                       | (Threw e, s'') \<Rightarrow> (Raised e, exts', s'')
                       | (Pending, s'') \<Rightarrow> (Unsettled, exts', s''))
                  | (Exited c, exts', s') \<Rightarrow> (Exited c, exts', s')
                  | (Raised e, exts', s') \<Rightarrow> (Raised e, exts', s')
                  | (Unsettled, exts', s') \<Rightarrow> (Unsettled, exts', s'))))"

section \<open>The extension catalog and its cache\<close>

text \<open>An entry of the remote catalog, and the reply to the request for the catalog.\<close>

record ExtensionInfo =
  info_id :: string
  info_name :: string
  info_version :: string
  info_shortName :: string
  info_tarballs :: "string list"

record response =
  status :: int
  data :: "string \<rightharpoonup> ExtensionInfo"

text \<open>
  The part of the application the metadata client and the install pipeline work on: the
  file system (of any type), what has been written to the caller's stream, the time in
  milliseconds, the HTTP requests issued so far (by URL), and the store of the cache. A
  request is identified by its position in \<open>requests\<close>; the cache holds, for a key, the
  request whose reply its callers share and the time the entry expires.
\<close>

record 'fs installer =
  disk :: 'fs
  sink :: "string list"
  clock :: nat
  requests :: "string list"
  cache_store :: "string \<rightharpoonup> nat \<times> nat"

type_synonym 'fs istate = "'fs installer host"

text \<open>
  What the metadata client and the pipeline call and the sources do not contain, as
  parameters: the reply the network gives to each request (the pair of \<open>request\<close>:
  response and error), \<open>systemPrefix\<close> (which may create the directory), \<open>downloadFile\<close>
  (the progress events it emits, as loaded and total bytes, and the path of the file or
  the exception), \<open>tar.x\<close>, \<open>fs.rename\<close> (which changes the file system or throws and
  leaves it as it is), \<open>rm\<close>, and the double arithmetic of
  \<open>Math.floor((loaded / total) * 100)\<close>.
\<close>

record 'fs platform =
  replies :: "nat \<Rightarrow> response option \<times> jsval option"
  systemPrefix :: "string \<Rightarrow> bool \<Rightarrow> 'fs \<Rightarrow> string js \<times> 'fs"
  downloadFile :: "string \<Rightarrow> string \<Rightarrow> string \<Rightarrow> 'fs \<Rightarrow> (nat \<times> nat option) list \<times> string js \<times> 'fs"
  tar_x :: "string \<Rightarrow> string \<Rightarrow> 'fs \<Rightarrow> jsval option \<times> 'fs"
  fs_rename :: "string \<Rightarrow> string \<Rightarrow> 'fs \<Rightarrow> jsval + 'fs"
  fs_rm :: "string \<Rightarrow> bool \<Rightarrow> 'fs \<Rightarrow> jsval option \<times> 'fs"
  floor_percent :: "nat \<Rightarrow> nat \<Rightarrow> nat"

definition on_disk :: "('fs \<Rightarrow> 'a \<times> 'fs) \<Rightarrow> 'fs istate \<Rightarrow> 'a \<times> 'fs istate" where
  "on_disk f s = (case f (disk (world s)) of (r, d) \<Rightarrow> (r, s\<lparr>world := (world s)\<lparr>disk := d\<rparr>\<rparr>))"

definition wait :: "nat \<Rightarrow> 'fs istate \<Rightarrow> 'fs istate" where
  "wait ms s = s\<lparr>world := (world s)\<lparr>clock := clock (world s) + ms\<rparr>\<rparr>"

text \<open>\<open>writeStream\<close>: nothing is written when the caller gave no stream.\<close>

definition writeStream :: "bool \<Rightarrow> string \<Rightarrow> 'fs istate \<Rightarrow> 'fs istate" where
  "writeStream stream chunk s =
     (if stream then s\<lparr>world := (world s)\<lparr>sink := sink (world s) @ [chunk]\<rparr>\<rparr> else s)"

text \<open>
  Modelled from the spec: the \<open>cache\<close> utility (\<open>../utils/cache\<close>) is not among the
  sources. Section 4.2 of the specification: the result is cached under a key with a
  time-to-live; callers within the window share the cached value; a miss invokes the
  underlying fetch once, with no duplicate fetch in flight. So a miss calls the function
  and stores what it returns, here the request whose reply is awaited, until \<open>ttl\<close>
  milliseconds after the call; a call before that time returns the stored value without
  calling the function.
\<close>

definition cache_miss :: "string \<Rightarrow> ('fs istate \<Rightarrow> nat \<times> 'fs istate) \<Rightarrow> nat \<Rightarrow> 'fs istate
    \<Rightarrow> nat \<times> 'fs istate" where
  "cache_miss key fn ttl s =
     (case fn s of (v, s') \<Rightarrow>
        (v, s'\<lparr>world := (world s')\<lparr>cache_store :=
                 (cache_store (world s'))(key \<mapsto> (v, clock (world s) + ttl))\<rparr>\<rparr>))"

definition cache :: "string \<Rightarrow> ('fs istate \<Rightarrow> nat \<times> 'fs istate) \<Rightarrow> nat \<Rightarrow> 'fs istate
    \<Rightarrow> nat \<times> 'fs istate" where
  "cache key fn ttl s =
     (case cache_store (world s) key of
        None \<Rightarrow> cache_miss key fn ttl s
      | Some (v, expires) \<Rightarrow>
          if clock (world s) < expires then (v, s) else cache_miss key fn ttl s)"

definition extensionIndexURL :: string where
  "extensionIndexURL =
     ''https://raw.githubusercontent.com/onesoft-sudo/sudobot/main/extensions/.extbuilds/index.json''"

text \<open>
  \<open>fetchExtensionMetadata\<close> in its two halves: up to the \<open>await\<close> it logs and issues the
  request; on the reply it gives \<open>[null, error]\<close> for an error, a missing response or a
  status other than 200, and \<open>[response.data, null]\<close> otherwise.
\<close>

definition fetchExtensionMetadata_request :: "'fs istate \<Rightarrow> nat \<times> 'fs istate" where
  "fetchExtensionMetadata_request s =
     (length (requests (world s)),
      (logger Debug [JStr ''Fetching extension list metadata''] s)
        \<lparr>world := (world s)\<lparr>requests := requests (world s) @ [extensionIndexURL]\<rparr>\<rparr>)"

definition fetchExtensionMetadata_result :: "response option \<times> jsval option
    \<Rightarrow> (string \<rightharpoonup> ExtensionInfo) option \<times> jsval option" where
  "fetchExtensionMetadata_result reply =
     (case reply of
        (Some r, None) \<Rightarrow> if status r \<noteq> 200 then (None, None) else (Some (data r), None)
      | (_, error) \<Rightarrow> (None, error))"

text \<open>\<open>getExtensionMetadata\<close>: the catalog through the cache, under the one key
  \<open>extension-index\<close> with 120000 milliseconds to live; then, on the reply,
  \<open>error ? [null, error] : [data?.[id], null]\<close>.\<close>

definition getExtensionMetadata_result :: "response option \<times> jsval option \<Rightarrow> string
    \<Rightarrow> ExtensionInfo option \<times> jsval option" where
  "getExtensionMetadata_result reply ident =
     (case fetchExtensionMetadata_result reply of
        (_, Some error) \<Rightarrow> (None, Some error)
      | (None, None) \<Rightarrow> (None, None)
      | (Some catalog, None) \<Rightarrow> (catalog ident, None))"

definition getExtensionMetadata :: "'fs platform \<Rightarrow> string \<Rightarrow> 'fs istate
    \<Rightarrow> (ExtensionInfo option \<times> jsval option) \<times> 'fs istate" where
  "getExtensionMetadata pf ident s =
     (case cache ''extension-index'' fetchExtensionMetadata_request 120000 s of
        (request_no, s') \<Rightarrow> (getExtensionMetadata_result (replies pf request_no) ident, s'))"

text \<open>Successive calls of \<open>getExtensionMetadata\<close> at the given times: the results in
  order, and the final state.\<close>

fun calls_at :: "'fs platform \<Rightarrow> string \<Rightarrow> nat list \<Rightarrow> 'fs istate
    \<Rightarrow> (ExtensionInfo option \<times> jsval option) list \<times> 'fs istate" where
  "calls_at pf ident [] s = ([], s)"
| "calls_at pf ident (t # ts) s =
     (case getExtensionMetadata pf ident (s\<lparr>world := (world s)\<lparr>clock := t\<rparr>\<rparr>) of
        (r, s') \<Rightarrow> (case calls_at pf ident ts s' of (rs, s'') \<Rightarrow> (r # rs, s'')))"

section \<open>The install pipeline\<close>

definition newline :: string where
  "newline = [CHR 0x0A]"

definition downloadProgressStreamEOF :: string where
  "downloadProgressStreamEOF = ''%''"

definition no_directory_message :: string where
  "no_directory_message =
     ''E: Extensions directory is not set. Please set the EXTENSIONS_DIRECTORY environment variable.''
       @ newline"

text \<open>The decimal digits of a number, for \<open>`${percentCompleted}\n`\<close>.\<close>

fun show_nat :: "nat \<Rightarrow> string" where
  "show_nat n =
     (if n < 10 then [char_of (48 + n)] else show_nat (n div 10) @ [char_of (48 + n mod 10)])"

text \<open>\<open>name (version)\<close>, as the progress lines have it.\<close>

definition titled :: "ExtensionInfo \<Rightarrow> string" where
  "titled extension = info_name extension @ '' ('' @ info_version extension @ '')''"

text \<open>
  \<open>installExtension\<close>. The result is the exception that leaves the method, if any
  (\<open>systemPrefix\<close> is called outside the \<open>try\<close> blocks), and the state. A failure of
  \<open>tar.x\<close> or of \<open>fs.rename\<close> is logged, reported on the stream with a line that starts
  with \<open>E:\<close>, and ends the method; a failure of the final \<open>rm\<close> is reported with \<open>W:\<close>.
\<close>

definition installExtension :: "'fs platform \<Rightarrow> string option \<Rightarrow> string \<Rightarrow> ExtensionInfo \<Rightarrow> bool
    \<Rightarrow> 'fs istate \<Rightarrow> jsval option \<times> 'fs istate" where
  "installExtension pf extensionsPath filePath extension stream s =
     (case extensionsPath of
        None \<Rightarrow> (None, s)
      | Some root \<Rightarrow>
          if root = [] then (None, s)
          else
            (case on_disk (systemPrefix pf
                     (''tmp/'' @ info_id extension @ ''-'' @ info_version extension) True)
                    (writeStream stream
                       (''Preparing to unpack '' @ titled extension @ ''...'' @ newline) s) of
               (Inl e, s1) \<Rightarrow> (Some e, s1)
             | (Inr extensionTmpDirectory, s1) \<Rightarrow>
                 (case on_disk (tar_x pf filePath extensionTmpDirectory)
                         (writeStream stream
                            (''Unpacking '' @ titled extension @ ''...'' @ newline) s1) of
                    (Some e, s2) \<Rightarrow>
                      (None, writeStream stream
                               (''E: Unable to unpack extension: '' @ info_id extension @ newline)
                               (logger Error [e] s2))
                  | (None, s2) \<Rightarrow>
                      (case fs_rename pf
                              (path_join extensionTmpDirectory
                                 (info_shortName extension @ ''-'' @ info_version extension))
                              (path_join root (info_shortName extension))
                              (disk (world s2)) of
                         Inl e \<Rightarrow>
                           (None, writeStream stream
                                    (''E: Failed to set up extension: '' @ info_id extension @ newline)
                                    (logger Error [e]
                                       (writeStream stream
                                          (''Setting up '' @ titled extension @ ''...'' @ newline) s2)))
                       | Inr d \<Rightarrow>
                           (case on_disk (fs_rm pf extensionTmpDirectory True)
                                   (writeStream stream
                                      (''Cleaning up caches and temporary files...'' @ newline)
                                      ((writeStream stream
                                          (''Setting up '' @ titled extension @ ''...'' @ newline) s2)
                                         \<lparr>world := (world (writeStream stream
                                          (''Setting up '' @ titled extension @ ''...'' @ newline) s2))
                                            \<lparr>disk := d\<rparr>\<rparr>)) of
                              (Some e, s3) \<Rightarrow>
                                (None, writeStream stream
                                         (''W: Failed to clean up temporary files for extension: ''
                                          @ info_id extension @ newline)
                                         (logger Error [e] s3))
                            | (None, s3) \<Rightarrow> (None, s3))))))"

text \<open>The \<open>catch\<close> block around the download and the installation.\<close>

definition retrieve_failed :: "jsval \<Rightarrow> string \<Rightarrow> bool \<Rightarrow> 'fs istate \<Rightarrow> 'fs istate" where
  "retrieve_failed error ident stream s =
     writeStream stream (''E: Failed to retrieve extension: '' @ ident @ newline)
       (writeStream stream newline
         (writeStream stream downloadProgressStreamEOF (logger Error [error] s)))"

text \<open>\<open>onDownloadProgress\<close>, for the progress events in order: an event without a total
  (absent or zero) writes nothing.\<close>

fun report_progress :: "'fs platform \<Rightarrow> bool \<Rightarrow> (nat \<times> nat option) list \<Rightarrow> 'fs istate \<Rightarrow> 'fs istate" where
  "report_progress pf stream [] s = s"
| "report_progress pf stream ((loaded, total_bytes) # events) s =
     report_progress pf stream events
       (case total_bytes of
          None \<Rightarrow> s
        | Some t \<Rightarrow> if t = 0 then s
                    else writeStream stream (show_nat (floor_percent pf loaded t) @ newline) s)"

text \<open>The end-of-progress marker between two waits of 100 milliseconds.\<close>

definition progress_marker :: "bool \<Rightarrow> 'fs istate \<Rightarrow> 'fs istate" where
  "progress_marker stream s =
     writeStream stream newline
       (wait 100 (writeStream stream downloadProgressStreamEOF (wait 100 s)))"

text \<open>The \<open>try\<close> block of \<open>fetchAndInstallExtension\<close>: the first tarball is downloaded
  (an entry without tarballs throws on \<open>tarballs[0].url\<close>), the extension is installed,
  and the downloaded file is removed, a failure of which is reported with \<open>W:\<close>.\<close>

definition download_and_install :: "'fs platform \<Rightarrow> string option \<Rightarrow> string \<Rightarrow> ExtensionInfo
    \<Rightarrow> bool \<Rightarrow> 'fs istate \<Rightarrow> 'fs istate" where
  "download_and_install pf extensionsPath ident extension stream s =
     (case info_tarballs extension of
        [] \<Rightarrow> retrieve_failed TypeError ident stream s
      | url # others \<Rightarrow>
          (case on_disk (systemPrefix pf ''tmp'' True) s of
             (Inl e, s1) \<Rightarrow> retrieve_failed e ident stream s1
           | (Inr tmp, s1) \<Rightarrow>
               (case downloadFile pf url tmp
                       (info_id extension @ ''-'' @ info_version extension @ ''.tar.gz'')
                       (disk (world s1)) of
                  (events, Inl e, d) \<Rightarrow>
                    retrieve_failed e ident stream
                      ((report_progress pf stream events s1)
                         \<lparr>world := (world (report_progress pf stream events s1))\<lparr>disk := d\<rparr>\<rparr>)
                | (events, Inr filePath, d) \<Rightarrow>
                    (case installExtension pf extensionsPath filePath extension stream
                            (progress_marker stream
                               ((report_progress pf stream events s1)
                                  \<lparr>world := (world (report_progress pf stream events s1))
                                     \<lparr>disk := d\<rparr>\<rparr>)) of
                       (Some e, s2) \<Rightarrow> retrieve_failed e ident stream s2
                     | (None, s2) \<Rightarrow>
                         (case on_disk (fs_rm pf filePath False) s2 of
                            (Some e, s3) \<Rightarrow>
                              writeStream stream
                                (''W: Failed to clean download caches for extension: '' @ ident
                                 @ newline)
                                (logger Error [e] s3)
                          | (None, s3) \<Rightarrow> s3)))))"

text \<open>What \<open>fetchAndInstallExtension\<close> returns: \<open>[null, errorMessage]\<close>,
  \<open>[null, metadataError]\<close>, or nothing.\<close>

datatype install_result =
    NoExtensionsDirectory string
  | MetadataFailed "jsval option"
  | Finished

definition fetchAndInstallExtension :: "'fs platform \<Rightarrow> string option \<Rightarrow> string \<Rightarrow> bool
    \<Rightarrow> 'fs istate \<Rightarrow> install_result \<times> 'fs istate" where
  "fetchAndInstallExtension pf extensionsPath ident stream s =
     (if unset extensionsPath
      then (NoExtensionsDirectory no_directory_message, writeStream stream no_directory_message s)
      else
        (case getExtensionMetadata pf ident
                (writeStream stream
                   (''Fetching metadata for extension '' @ ident @ ''...'' @ newline) s) of
           ((Some extension, None), s1) \<Rightarrow>
             (Finished,
              download_and_install pf extensionsPath ident extension stream
                (progress_marker stream
                   (writeStream stream
                      (''Retrieving '' @ titled extension
                       @ '' from the SudoBot Extension Repository (SER)...'' @ newline) s1)))
         | ((_, metadataError), s1) \<Rightarrow>
             (MetadataFailed metadataError,
              writeStream stream
                (''E: Failed to fetch metadata of extension: '' @ ident @ newline) s1)))"

section \<open>A small platform, for examples\<close>

text \<open>
  A file system as a map from the path of a directory to the names in it. Renaming a
  directory follows \<open>rename(2)\<close>: it fails when the source does not exist, and when the
  destination is a directory that is not empty; a destination that is an empty
  directory is replaced.
\<close>

type_synonym dirs = "string \<rightharpoonup> string list"

definition ENOENT :: jsval where
  "ENOENT = JObj [(''code'', JStr ''ENOENT'')]"

definition ENOTEMPTY :: jsval where
  "ENOTEMPTY = JObj [(''code'', JStr ''ENOTEMPTY'')]"

definition rename_dir :: "string \<Rightarrow> string \<Rightarrow> dirs \<Rightarrow> jsval + dirs" where
  "rename_dir src dst d =
     (case d src of
        None \<Rightarrow> Inl ENOENT
      | Some names \<Rightarrow>
          (case d dst of
             Some (x # xs) \<Rightarrow> Inl ENOTEMPTY
           | _ \<Rightarrow> Inr (d(src := None, dst \<mapsto> names))))"

definition names_in :: "dirs \<Rightarrow> string \<Rightarrow> string list" where
  "names_in d p = (case d p of None \<Rightarrow> [] | Some l \<Rightarrow> l)"

definition welcomer :: ExtensionInfo where
  "welcomer = \<lparr> info_id = ''org.example.welcomer'', info_name = ''Welcomer'',
                 info_version = ''1.0.0'', info_shortName = ''welcomer'',
                 info_tarballs = [''https://example.org/welcomer-1.0.0.tar.gz''] \<rparr>"

definition example_platform :: "dirs platform" where
  "example_platform =
     \<lparr> replies = (\<lambda>n. (Some \<lparr> status = 200, data = [''org.example.welcomer'' \<mapsto> welcomer] \<rparr>, None)),
       systemPrefix = (\<lambda>p create d.
          (Inr (''/sudobot/'' @ p),
           if create \<and> d (''/sudobot/'' @ p) = None then d(''/sudobot/'' @ p \<mapsto> []) else d)),
       downloadFile = (\<lambda>url dir name d.
          ([(50, Some 100), (100, Some 100)], Inr (path_join dir name),
           d(dir \<mapsto> names_in d dir @ [name]))),
       tar_x = (\<lambda>file cwd d.
          (None, d(cwd \<mapsto> names_in d cwd @ [''welcomer-1.0.0''],
                   path_join cwd ''welcomer-1.0.0'' \<mapsto> [''extension.json'']))),
       fs_rename = rename_dir,
       fs_rm = (\<lambda>p recursive d. (None, d(p := None))),
       floor_percent = (\<lambda>loaded total_bytes. loaded * 100 div total_bytes) \<rparr>"

text \<open>A state of the pipeline with the given directories, nothing written, no request
  issued and an empty cache.\<close>

definition install_state :: "dirs \<Rightarrow> dirs istate" where
  "install_state d =
     empty_host \<lparr> disk = d, sink = [], clock = 0, requests = [], cache_store = Map.empty \<rparr>"

text \<open>Two states of the extensions directory \<open>/ext\<close>: with the extension installed, and
  with an empty directory under its name.\<close>

definition installed_dirs :: dirs where
  "installed_dirs = [''/ext'' \<mapsto> [''welcomer''], ''/ext/welcomer'' \<mapsto> [''extension.json'', ''src'']]"

definition empty_destination_dirs :: dirs where
  "empty_destination_dirs = [''/ext'' \<mapsto> [''welcomer''], ''/ext/welcomer'' \<mapsto> []]"

section \<open>A small loader environment, for examples\<close>

text \<open>A directory \<open>/ext\<close> with two subdirectories: \<open>broken\<close>, whose manifest the schema
  rejects, and \<open>bare\<close>, which has no manifest.\<close>

definition example_loader_env :: "nat loader_env" where
  "example_loader_env =
     \<lparr> readdir = (\<lambda>p. Inr [''broken'', ''bare'']),
       lstat_isDirectory = (\<lambda>p. Inr True),
       existsSync = (\<lambda>f. f = ''/ext/broken/extension.json''),
       readFile = (\<lambda>f. Inr ''{}''),
       JSON_parse = (\<lambda>t. Inr (JObj [])),
       safeParse = (\<lambda>v. Inl (JStr ''id: Required'')),
       import_and_construct = (\<lambda>p n i m s. (Inl (JStr ''no module''), s)),
       registerExtensionConfig = (\<lambda>exts s. (Returned JUndefined, s)),
       manualBoot = (\<lambda>s. (Returned JUndefined, s)) \<rparr>"

section \<open>Properties of the resolver table\<close>

lemma fst_set_events:
  "fst (set_events r evs (m, ws)) = m ++ map_of (rev (map (\<lambda>e. (e, r)) evs))"
proof (induction evs arbitrary: m ws)
  case Nil
  then show ?case by simp
next
  case (Cons e es)
  obtain ws' where "set_events r (e # es) (m, ws) = set_events r es (m(e \<mapsto> r), ws')"
    by simp
  then have "fst (set_events r (e # es) (m, ws))
      = m(e \<mapsto> r) ++ map_of (rev (map (\<lambda>e. (e, r)) es))"
    by (simp only: Cons.IH)
  also have "m(e \<mapsto> r) = m ++ [e \<mapsto> r]"
    by simp
  also have "(m ++ [e \<mapsto> r]) ++ map_of (rev (map (\<lambda>e. (e, r)) es))
      = m ++ map_of (rev (map (\<lambda>e. (e, r)) (e # es)))"
    by (simp only: map_add_assoc list.map rev.simps map_of_append map_of.simps fst_conv snd_conv
        map_add_empty empty_map_add fun_upd_def [symmetric])
  finally show ?case .
qed

lemma fst_build:
  "fst (build_resolvers_map tbl acc) = fst acc ++ map_of (rev (table_pairs tbl))"
proof (induction tbl arbitrary: acc)
  case Nil
  then show ?case by (simp add: table_pairs_def)
next
  case (Cons entry rest)
  obtain es r where entry: "entry = (es, r)" by (cases entry)
  obtain m ws where acc: "acc = (m, ws)" by (cases acc)
  show ?case
    by (simp add: entry acc Cons.IH fst_set_events table_pairs_def)
qed

lemma resolver_lookup: "fst getGuildIdResolversMap = map_of (rev (table_pairs guildIdResolvers))"
  by (simp add: getGuildIdResolversMap_def fst_build)

lemma unregistered_event:
  "(fst getGuildIdResolversMap ev = None) = (ev \<notin> set (concat (map fst guildIdResolvers)))"
  apply (simp add: resolver_lookup map_of_eq_None_iff table_pairs_def)
  apply (auto simp: image_iff)
  done

lemma resolve_messageCreate: "resolve_guild ''messageCreate'' args = resolver_message args"
  by (simp add: resolve_guild_def resolver_lookup guildIdResolvers_def table_pairs_def)

lemma resolve_applicationCommandPermissionsUpdate:
  "resolve_guild ''applicationCommandPermissionsUpdate'' args = resolver_applicationCommandPermissions args"
  by (simp add: resolve_guild_def resolver_lookup guildIdResolvers_def table_pairs_def)

lemma resolve_guildAuditLogEntryCreate:
  "resolve_guild ''guildAuditLogEntryCreate'' args = resolver_secondId args"
  by (simp add: resolve_guild_def resolver_lookup guildIdResolvers_def table_pairs_def)

section \<open>Properties of the dispatch wrapper\<close>

lemma isEnabled_logs:
  "snd (isEnabled ext g s) = logger Debug [of_opt_str (system_default_mode s),
      of_opt_bool (enabled (guild_extensions_of s g))] s"
  by (simp add: isEnabled_def Let_def)

lemma guild_extensions_of_logs [simp]:
  "guild_extensions_of (s\<lparr>logs := l\<rparr>) g = guild_extensions_of s g"
  by (cases g) (simp_all add: guild_extensions_of_def)

lemma system_default_mode_logs [simp]:
  "system_default_mode (s\<lparr>logs := l\<rparr>) = system_default_mode s"
  by (simp add: system_default_mode_def)

lemma isEnabled_indep_logs [simp]:
  "fst (isEnabled ext g (s\<lparr>logs := l\<rparr>)) = fst (isEnabled ext g s)"
  by (simp add: isEnabled_def Let_def)

lemma wrapHandler_passes:
  assumes "resolve_guild ev args = Inr g" "g \<noteq> JUndefined"
    "g = JNull \<or> fst (isEnabled ext g s)"
  shows "wrapHandler ext ev h bail args s = guarded_call ext h bail args (invocation_state ext ev g s)"
  using assms
  by (auto simp: wrapHandler_def invocation_state_def split: prod.splits)

lemma wrapHandler_blocked:
  assumes "resolve_guild ev args = Inr (JStr C)" "\<not> fst (isEnabled ext (JStr C) s)"
  shows "wrapHandler ext ev handler bail args s
     = (Returned JUndefined,
        s\<lparr>logs := logs s @
          [(Debug, [of_opt_str (system_default_mode s),
                    of_opt_bool (enabled (guild_extensions_of s (JStr C)))]),
           (Debug, [JStr ''Extension isn't enabled in this guild: '', JStr C])]\<rparr>)"
proof -
  obtain en s1 where r: "isEnabled ext (JStr C) s = (en, s1)"
    by (cases "isEnabled ext (JStr C) s")
  have "\<not> en"
    using assms(2) r by simp
  moreover have "s1 = logger Debug [of_opt_str (system_default_mode s),
      of_opt_bool (enabled (guild_extensions_of s (JStr C)))] s"
    using isEnabled_logs [of ext "JStr C" s] r by simp
  ultimately show ?thesis
    using assms(1) r by (simp add: wrapHandler_def logger_def)
qed

lemma resolve_message_in: "resolve_guild ''messageCreate'' (message_in g) = Inr (JStr g)"
  by (simp add: resolve_messageCreate resolver_message_def message_in_def arg_def nullish_or_def
      opt_chain_def then_js_def nullish_def)


text \<open>
  Claim C1. When the wrapper reaches the handler (the event resolves to \<open>null\<close> or to a
  guild in which the extension is enabled) and the handler throws, the wrapped handler
  returns \<open>undefined\<close>, whatever \<open>bail\<close> is: the exception is caught and logged twice at
  error level, first the line \<open>Extension error: the extension '<id>' seems to cause this
  exception\<close> with the id of the extension whose handler threw, then the exception
  itself, on top of whatever the handler did before it threw. Hence the dispatch of the same
  occurrence goes on with the listeners registered after it, and the host goes on with
  the next occurrences, for which the same wrapped handler is called again.
\<close>

theorem wrapHandler_swallows_handler_exception:
  assumes "resolve_guild ev args = Inr g" "g \<noteq> JUndefined"
    "g = JNull \<or> fst (isEnabled ext g s)"
    "handler args (invocation_state ext ev g s) = (Threw e, s')"
  shows "wrapHandler ext ev handler bail args s
           = (Returned JUndefined,
              s'\<lparr>logs := logs s' @
                [(Error, [JStr (''Extension error: the extension '' @ [CHR 0x27] @ ext
                                @ [CHR 0x27] @ '' seems to cause this exception'')]),
                 (Error, [e])]\<rparr>)
       \<and> emit ((ev, wrapHandler ext ev handler bail) # others) ev args s
           = emit others ev args
               (s'\<lparr>logs := logs s' @
                 [(Error, [JStr (''Extension error: the extension '' @ [CHR 0x27] @ ext
                                 @ [CHR 0x27] @ '' seems to cause this exception'')]),
                  (Error, [e])]\<rparr>)
       \<and> emit_all [(ev, wrapHandler ext ev handler bail)] ((ev, args) # occurrences) s
           = emit_all [(ev, wrapHandler ext ev handler bail)] occurrences
               (s'\<lparr>logs := logs s' @
                 [(Error, [JStr (''Extension error: the extension '' @ [CHR 0x27] @ ext
                                 @ [CHR 0x27] @ '' seems to cause this exception'')]),
                  (Error, [e])]\<rparr>)"
proof -
  have w: "wrapHandler ext ev handler bail args s
           = (Returned JUndefined,
              s'\<lparr>logs := logs s' @
                [(Error, [JStr (''Extension error: the extension '' @ [CHR 0x27] @ ext
                                @ [CHR 0x27] @ '' seems to cause this exception'')]),
                 (Error, [e])]\<rparr>)"
    using assms
    by (simp add: wrapHandler_passes guarded_call_def logger_def)
  show ?thesis
    by (simp add: w)
qed

theorem wrapHandler_swallows_handler_exception_witness:
  "resolve_guild ''messageCreate'' (message_in ''g3'') = Inr (JStr ''g3'')
   \<and> fst (isEnabled ''welcomer'' (JStr ''g3'') example_host)
   \<and> wrapHandler ''welcomer'' ''messageCreate'' counting_thrower False (message_in ''g3'') example_host
     = (Returned JUndefined,
        example_host\<lparr>world := 1, logs :=
          [(Debug, [JStr ''enable_all'', JUndefined]),
           (Info, [JStr ''Running: messageCreate [welcomer]'']),
           (Error, [JStr (''Extension error: the extension '' @ [CHR 0x27] @ ''welcomer''
                          @ [CHR 0x27] @ '' seems to cause this exception'')]),
           (Error, [JStr ''boom''])]\<rparr>)"
proof -
  have h1: "resolve_guild ''messageCreate'' (message_in ''g3'') = Inr (JStr ''g3'')"
    by (simp add: resolve_message_in)
  have h2: "JStr ''g3'' \<noteq> JUndefined"
    by simp
  have h3: "JStr ''g3'' = JNull \<or> fst (isEnabled ''welcomer'' (JStr ''g3'') example_host)"
    by (simp add: isEnabled_def Let_def example_host_def guild_extensions_of_def
        system_default_mode_def not_disabled_def)
  have h4: "counting_thrower (message_in ''g3'')
      (invocation_state ''welcomer'' ''messageCreate'' (JStr ''g3'') example_host)
    = (Threw (JStr ''boom''),
       (invocation_state ''welcomer'' ''messageCreate'' (JStr ''g3'') example_host)\<lparr>world := 1\<rparr>)"
    by (simp add: counting_thrower_def invocation_state_def isEnabled_logs logger_def example_host_def)
  show ?thesis
    using wrapHandler_swallows_handler_exception [where handler = counting_thrower and bail = False and others = "[]"
          and occurrences = "[]", OF h1 h2 h3 h4] h1 h3
    by (simp add: invocation_state_def isEnabled_logs logger_def example_host_def
        guild_extensions_of_def system_default_mode_def of_opt_str_def of_opt_bool_def)
qed




text \<open>
  Claim C4. Let the extension be disabled for the guild \<open>C\<close> under \<open>isEnabled\<close>. Then
  for every handler and every sequence of occurrences of the event that all resolve to
  \<open>C\<close>, however long, dispatching them to the wrapped handler returns normally and
  changes nothing but the log, to which each occurrence adds two debug lines (the one of
  \<open>isEnabled\<close> and the one of the wrapper): the handler, which could change the world or
  the configuration and of which nothing is assumed, is never called.
\<close>

theorem disabled_extension_never_invoked:
  assumes "\<forall>args \<in> set occs. resolve_guild ev args = Inr (JStr C)"
    and "\<not> fst (isEnabled ext (JStr C) s)"
  shows "emit_all [(ev, wrapHandler ext ev handler bail)] (map (Pair ev) occs) s
     = (Returned JUndefined,
        s\<lparr>logs := logs s @ concat (map (\<lambda>args.
          [(Debug, [of_opt_str (system_default_mode s),
                    of_opt_bool (enabled (guild_extensions_of s (JStr C)))]),
           (Debug, [JStr ''Extension isn't enabled in this guild: '', JStr C])]) occs)\<rparr>)"
  using assms
proof (induction occs arbitrary: s)
  case Nil
  then show ?case by simp
next
  case (Cons a occs)
  let ?s1 = "s\<lparr>logs := logs s @
          [(Debug, [of_opt_str (system_default_mode s),
                    of_opt_bool (enabled (guild_extensions_of s (JStr C)))]),
           (Debug, [JStr ''Extension isn't enabled in this guild: '', JStr C])]\<rparr>"
  have step: "wrapHandler ext ev handler bail a s = (Returned JUndefined, ?s1)"
    using Cons.prems by (simp add: wrapHandler_blocked)
  have off: "\<not> fst (isEnabled ext (JStr C) ?s1)"
    using Cons.prems by simp
  have rest: "\<forall>args \<in> set occs. resolve_guild ev args = Inr (JStr C)"
    using Cons.prems by simp
  have "emit_all [(ev, wrapHandler ext ev handler bail)] (map (Pair ev) occs) ?s1
     = (Returned JUndefined,
        ?s1\<lparr>logs := logs ?s1 @ concat (map (\<lambda>args.
          [(Debug, [of_opt_str (system_default_mode ?s1),
                    of_opt_bool (enabled (guild_extensions_of ?s1 (JStr C)))]),
           (Debug, [JStr ''Extension isn't enabled in this guild: '', JStr C])]) occs)\<rparr>)"
    by (rule Cons.IH [OF rest off])
  then show ?case
    by (simp add: step)
qed

theorem disabled_extension_never_invoked_witness:
  "emit_all [(''messageCreate'', wrapHandler ''welcomer'' ''messageCreate'' counting_thrower False)]
      (map (Pair ''messageCreate'') [message_in ''g1'', message_in ''g1'']) example_host
   = (Returned JUndefined,
      example_host\<lparr>logs :=
        [(Debug, [JStr ''enable_all'', JBool False]),
         (Debug, [JStr ''Extension isn't enabled in this guild: '', JStr ''g1'']),
         (Debug, [JStr ''enable_all'', JBool False]),
         (Debug, [JStr ''Extension isn't enabled in this guild: '', JStr ''g1''])]\<rparr>)"
proof -
  have h1: "\<forall>args \<in> set [message_in ''g1'', message_in ''g1''].
      resolve_guild ''messageCreate'' args = Inr (JStr ''g1'')"
    by (simp add: resolve_message_in)
  have h2: "\<not> fst (isEnabled ''welcomer'' (JStr ''g1'') example_host)"
    by (simp add: isEnabled_def Let_def example_host_def guild_extensions_of_def)
  show ?thesis
    using disabled_extension_never_invoked [OF h1 h2, of counting_thrower False]
    by (simp add: example_host_def guild_extensions_of_def system_default_mode_def
        of_opt_str_def of_opt_bool_def)
qed


text \<open>
  Claim C5. For an event kind that occurs in no entry of the resolver table, a call of
  the wrapped handler returns normally with exactly one line added to the log, at error
  level, and nothing else changed, for every handler: the handler is not called.
\<close>

theorem unregistered_event_dropped:
  assumes "eventName \<notin> set (concat (map fst guildIdResolvers))"
  shows "wrapHandler ext eventName handler bail args s
     = (Returned JUndefined,
        s\<lparr>logs := logs s @ [(Error, [JStr ''Invalid event or failed to fetch guild: '', JStr eventName])]\<rparr>)"
proof -
  have "fst getGuildIdResolversMap eventName = None"
    using assms unregistered_event by blast
  then have "resolve_guild eventName args = Inr JUndefined"
    by (simp add: resolve_guild_def)
  then show ?thesis
    by (simp add: wrapHandler_def logger_def)
qed

theorem unregistered_event_dropped_witness:
  "''userUpdate'' \<notin> set (concat (map fst guildIdResolvers))
   \<and> wrapHandler ''welcomer'' ''userUpdate'' counting_thrower False [] example_host
     = (Returned JUndefined,
        example_host\<lparr>logs := [(Error, [JStr ''Invalid event or failed to fetch guild: '', JStr ''userUpdate''])]\<rparr>)"
proof -
  have h: "''userUpdate'' \<notin> set (concat (map fst guildIdResolvers))"
    by (simp add: guildIdResolvers_def)
  show ?thesis
    using h unregistered_event_dropped [OF h, of "''welcomer''" counting_thrower False "[]" example_host]
    by (simp add: example_host_def)
qed


text \<open>
  Claim C10. The resolver runs outside the \<open>try\<close> block: for the event
  \<open>applicationCommandPermissionsUpdate\<close> delivered without arguments, and for the event
  \<open>guildAuditLogEntryCreate\<close> delivered with a single argument, the resolver reads a
  property of \<open>undefined\<close>, and the wrapped handler throws the TypeError, for every
  extension, handler and state, without a line in the log; the exception ends the
  dispatch of the occurrence, so that the listeners after it are not run.
\<close>

theorem resolver_exception_escapes_wrapper:
  "wrapHandler ext ''applicationCommandPermissionsUpdate'' handler bail [] s = (Threw TypeError, s)
 \<and> wrapHandler ext ''guildAuditLogEntryCreate'' handler bail [entry] s = (Threw TypeError, s)
 \<and> emit ((''guildAuditLogEntryCreate'', wrapHandler ext ''guildAuditLogEntryCreate'' handler bail) # others)
      ''guildAuditLogEntryCreate'' [entry] s = (Threw TypeError, s)"
  by (simp add: wrapHandler_def resolve_applicationCommandPermissionsUpdate
      resolve_guildAuditLogEntryCreate resolver_applicationCommandPermissions_def
      resolver_secondId_def arg_def nullish_or_def then_js_def)


section \<open>Properties of the activation\<close>

lemma recording_extension_fields:
  "ext_id (recording_extension i) = i"
  "ext_name (recording_extension i) = i"
  "ext_postConstruct (recording_extension i) s
     = (Returned JUndefined, s\<lparr>world := world s @ [PostConstructed i]\<rparr>)"
  "ext_register (recording_extension i) s
     = (Returned JUndefined, s\<lparr>world := world s @ [Registered i]\<rparr>)"
  by (simp_all add: recording_extension_def)

lemma recording_trace:
  "postConstruct (map recording_extension ids) s
     = (Returned JUndefined,
        s\<lparr>logs := logs s @ map (\<lambda>i. (Debug, [JStr (''Setting up extension: '' @ i @ '' ('' @ i @ '')'')])) ids,
          world := world s @ single_pass_order ids\<rparr>)"
proof (induction ids arbitrary: s)
  case Nil
  then show ?case by (simp add: single_pass_order_def)
next
  case (Cons i ids)
  show ?case
    by (simp add: Cons.IH recording_extension_fields logger_def single_pass_order_def)
qed


text \<open>
  Claim C2, as the code has it. Activation is a single pass over the loaded extensions
  in load order: for each extension its post-construction hook runs and then its
  registration hook is awaited, before the next extension's post-construction hook. For
  extensions that record their hooks, the hooks called are those of
  \<open>single_pass_order\<close>, for every list of extensions.
\<close>

theorem postConstruct_single_pass:
  "fst (postConstruct (map recording_extension ids) s) = Returned JUndefined
   \<and> world (snd (postConstruct (map recording_extension ids) s)) = world s @ single_pass_order ids"
  by (simp add: recording_trace)


text \<open>With the extensions \<open>A\<close> and \<open>B\<close> loaded in this order, the registration hook of
  \<open>A\<close> runs before the post-construction hook of \<open>B\<close>, which is not the two-phase
  order.\<close>

theorem postConstruct_not_two_phase:
  "world (snd (postConstruct [recording_extension ''A'', recording_extension ''B''] (empty_host [])))
     = [PostConstructed ''A'', Registered ''A'', PostConstructed ''B'', Registered ''B'']
   \<and> world (snd (postConstruct [recording_extension ''A'', recording_extension ''B''] (empty_host [])))
     \<noteq> spec_two_phase_order [''A'', ''B'']"
  by (simp add: recording_extension_def logger_def empty_host_def spec_two_phase_order_def)

section \<open>Properties of the loader\<close>

lemma load_entries_append:
  "load_entries env path (pre @ post) exts s
     = (case load_entries env path pre exts s of
          (Completed, exts1, s1) \<Rightarrow> load_entries env path post exts1 s1
        | other \<Rightarrow> other)"
proof (induction pre arbitrary: exts s)
  case Nil
  then show ?case by simp
next
  case (Cons name pre)
  show ?case
    by (simp add: Cons.IH split: sum.splits prod.splits)
qed


text \<open>
  Claim C9. Let the loop of \<open>loadExtensions\<close> get past the names before a candidate
  directory (a directory other than \<open>.extbuilds\<close>) without an exception. If the
  directory has no \<open>extension.json\<close>, the loop logs an error and the process exits with
  code \<open>-1\<close>, which is not zero: the names after it are not looked at, no extension is
  added, and \<open>loadExtensions\<close> as a whole ends in that exit. If instead the manifest
  exists and parses as JSON but the schema rejects it, two errors are logged, no
  extension is added, and the loop continues with the names after it.
\<close>

theorem missing_manifest_fatal_invalid_manifest_skipped:
  assumes "load_entries env path pre exts s = (Completed, exts1, s1)"
    and "lstat_isDirectory env (path_resolve path name) = Inr True"
    and "name \<noteq> ''.extbuilds''"
  shows "(\<not> existsSync env (path_join (path_resolve path name) ''extension.json'') \<longrightarrow>
            load_entries env path (pre @ name # post) exts s
              = (Exited (- 1), exts1,
                 logger Error [JStr (no_manifest_message name)] (log_loading path name s1))
          \<and> (- 1 :: int) \<noteq> 0
          \<and> (path \<noteq> [] \<and> readdir env path = Inr (pre @ name # post) \<longrightarrow>
               loadExtensions env (Some path) exts s
                 = (Exited (- 1), exts1,
                    logger Error [JStr (no_manifest_message name)] (log_loading path name s1))))
       \<and> (\<forall>json err.
            existsSync env (path_join (path_resolve path name) ''extension.json'')
            \<and> then_js (readFile env (path_join (path_resolve path name) ''extension.json''))
                 (JSON_parse env) = Inr json
            \<and> safeParse env json = Inl err \<longrightarrow>
            load_entries env path (pre @ name # post) exts s
              = load_entries env path post exts1
                  (logger Error [err]
                    (logger Error [JStr (''Error parsing extension metadata for extension '' @ name)]
                      (log_loading path name s1))))"
  using assms
  by (simp add: load_entries_append loadExtensions_def)

theorem missing_manifest_fatal_invalid_manifest_skipped_witness:
  "loadExtensions example_loader_env (Some ''/ext'') [] example_host
     = (Exited (- 1), [],
        example_host\<lparr>logs :=
          [(Debug, [JStr ''Loading extension from directory: '', JStr ''/ext/broken'']),
           (Error, [JStr ''Error parsing extension metadata for extension broken'']),
           (Error, [JStr ''id: Required'']),
           (Debug, [JStr ''Loading extension from directory: '', JStr ''/ext/bare'']),
           (Error, [JStr (no_manifest_message ''bare'')])]\<rparr>)"
proof -
  let ?s1 = "logger Error [JStr ''id: Required'']
               (logger Error [JStr (''Error parsing extension metadata for extension '' @ ''broken'')]
                 (log_loading ''/ext'' ''broken'' example_host))"
  have a0: "load_entries example_loader_env ''/ext'' [] [] example_host = (Completed, [], example_host)"
    by simp
  have d: "lstat_isDirectory example_loader_env (path_resolve ''/ext'' ''broken'') = Inr True"
    "lstat_isDirectory example_loader_env (path_resolve ''/ext'' ''bare'') = Inr True"
    by (simp_all add: example_loader_env_def)
  have n: "''broken'' \<noteq> ''.extbuilds''" "''bare'' \<noteq> ''.extbuilds''"
    by simp_all
  have skip: "load_entries example_loader_env ''/ext'' ([] @ ''broken'' # []) [] example_host
      = load_entries example_loader_env ''/ext'' [] [] ?s1"
    using missing_manifest_fatal_invalid_manifest_skipped [OF a0 d(1) n(1), of "[]"]
    by (simp add: example_loader_env_def path_join_def path_resolve_def then_js_def)
  then have a1: "load_entries example_loader_env ''/ext'' [''broken''] [] example_host
      = (Completed, [], ?s1)"
    by simp
  have "loadExtensions example_loader_env (Some ''/ext'') [] example_host
     = (Exited (- 1), [], logger Error [JStr (no_manifest_message ''bare'')] (log_loading ''/ext'' ''bare'' ?s1))"
    using missing_manifest_fatal_invalid_manifest_skipped [OF a1 d(2) n(2), of "[]"]
    by (simp add: example_loader_env_def path_join_def path_resolve_def)
  then show ?thesis
    by (simp add: logger_def log_loading_def path_resolve_def example_host_def)
qed


section \<open>Properties of the metadata client\<close>

lemma getExtensionMetadata_hit:
  assumes "cache_store (world s) ''extension-index'' = Some (n, expires)"
    and "clock (world s) < expires"
  shows "getExtensionMetadata pf ident s = (getExtensionMetadata_result (replies pf n) ident, s)"
  using assms by (simp add: getExtensionMetadata_def cache_def)

lemma getExtensionMetadata_miss:
  assumes "cache_store (world s) ''extension-index'' = None"
  shows "getExtensionMetadata pf ident s
     = (getExtensionMetadata_result (replies pf (length (requests (world s)))) ident,
        s\<lparr>logs := logs s @ [(Debug, [JStr ''Fetching extension list metadata''])],
          world := (world s)\<lparr>requests := requests (world s) @ [extensionIndexURL],
            cache_store := (cache_store (world s))
              (''extension-index'' \<mapsto> (length (requests (world s)), clock (world s) + 120000))\<rparr>\<rparr>)"
  using assms
  by (simp add: getExtensionMetadata_def cache_def cache_miss_def
      fetchExtensionMetadata_request_def logger_def)

lemma calls_at_hits:
  assumes "cache_store (world s) ''extension-index'' = Some (n, expires)"
    and "\<forall>t \<in> set ts. t < expires"
  shows "fst (calls_at pf ident ts s)
           = replicate (length ts) (getExtensionMetadata_result (replies pf n) ident)
       \<and> requests (world (snd (calls_at pf ident ts s))) = requests (world s)
       \<and> logs (snd (calls_at pf ident ts s)) = logs s"
  using assms
proof (induction ts arbitrary: s)
  case Nil
  then show ?case by simp
next
  case (Cons t ts)
  let ?s = "s\<lparr>world := (world s)\<lparr>clock := t\<rparr>\<rparr>"
  have c: "cache_store (world ?s) ''extension-index'' = Some (n, expires)"
    using Cons.prems by simp
  have "clock (world ?s) < expires"
    using Cons.prems by simp
  then have step: "getExtensionMetadata pf ident ?s
      = (getExtensionMetadata_result (replies pf n) ident, ?s)"
    using c by (rule getExtensionMetadata_hit [rotated])
  have rest: "\<forall>t \<in> set ts. t < expires"
    using Cons.prems by simp
  show ?case
    using Cons.IH [OF c rest]
    by (simp add: step case_prod_unfold)
qed

lemma after_ttl:
  "requests (world (snd (calls_at example_platform ''org.example.welcomer'' [1000, 121000]
        (install_state Map.empty)))) = [extensionIndexURL, extensionIndexURL]"
  by (simp add: install_state_def empty_host_def example_platform_def getExtensionMetadata_def
      cache_def cache_miss_def fetchExtensionMetadata_request_def logger_def)

text \<open>
  Claim C6. After a call of \<open>getExtensionMetadata\<close> at time \<open>t0\<close> that misses the cache,
  any number of further calls for the same id at times less than 120000 milliseconds
  after \<open>t0\<close> issue no request: in all, exactly one request has been issued, to the
  catalog URL, and every call has the result computed from the reply to that one
  request, which for a reply of status 200 without error is the catalog's entry for
  the id.
\<close>

theorem metadata_fetched_once_within_ttl:
  assumes "cache_store (world s) ''extension-index'' = None"
    and "\<forall>t \<in> set ts. t0 \<le> t \<and> t < t0 + 120000"
  shows "fst (calls_at pf ident (t0 # ts) s)
           = replicate (Suc (length ts))
               (getExtensionMetadata_result (replies pf (length (requests (world s)))) ident)
       \<and> requests (world (snd (calls_at pf ident (t0 # ts) s)))
           = requests (world s) @ [extensionIndexURL]
       \<and> (\<forall>r. replies pf (length (requests (world s))) = (Some r, None) \<and> status r = 200 \<longrightarrow>
            getExtensionMetadata_result (replies pf (length (requests (world s)))) ident
              = (data r ident, None))"
proof -
  let ?s0 = "s\<lparr>world := (world s)\<lparr>clock := t0\<rparr>\<rparr>"
  let ?n = "length (requests (world s))"
  let ?s1 = "?s0\<lparr>logs := logs ?s0 @ [(Debug, [JStr ''Fetching extension list metadata''])],
          world := (world ?s0)\<lparr>requests := requests (world ?s0) @ [extensionIndexURL],
            cache_store := (cache_store (world ?s0))
              (''extension-index'' \<mapsto> (length (requests (world ?s0)), clock (world ?s0) + 120000))\<rparr>\<rparr>"
  have m: "cache_store (world ?s0) ''extension-index'' = None"
    using assms(1) by simp
  have first: "getExtensionMetadata pf ident ?s0
      = (getExtensionMetadata_result (replies pf ?n) ident, ?s1)"
    using getExtensionMetadata_miss [OF m, of pf ident] by simp
  have c: "cache_store (world ?s1) ''extension-index'' = Some (?n, t0 + 120000)"
    by simp
  have w: "\<forall>t \<in> set ts. t < t0 + 120000"
    using assms(2) by simp
  have later: "fst (calls_at pf ident ts ?s1)
           = replicate (length ts) (getExtensionMetadata_result (replies pf ?n) ident)
       \<and> requests (world (snd (calls_at pf ident ts ?s1))) = requests (world ?s1)
       \<and> logs (snd (calls_at pf ident ts ?s1)) = logs ?s1"
    by (rule calls_at_hits [OF c w])
  have healthy: "\<forall>r. replies pf ?n = (Some r, None) \<and> status r = 200 \<longrightarrow>
            getExtensionMetadata_result (replies pf ?n) ident = (data r ident, None)"
    by (simp add: getExtensionMetadata_result_def fetchExtensionMetadata_result_def)
  show ?thesis
    using later healthy
    by (simp add: first case_prod_unfold)
qed

theorem metadata_fetched_once_within_ttl_witness:
  "fst (calls_at example_platform ''org.example.welcomer'' [1000, 120999] (install_state Map.empty))
     = [(Some welcomer, None), (Some welcomer, None)]
   \<and> requests (world (snd (calls_at example_platform ''org.example.welcomer'' [1000, 120999]
        (install_state Map.empty)))) = [extensionIndexURL]"
proof -
  have h1: "cache_store (world (install_state Map.empty)) ''extension-index'' = None"
    by (simp add: install_state_def empty_host_def)
  have h2: "\<forall>t \<in> set [120999]. (1000::nat) \<le> t \<and> t < 1000 + 120000"
    by simp
  show ?thesis
    using metadata_fetched_once_within_ttl [OF h1 h2, of example_platform "''org.example.welcomer''"]
    by (simp add: install_state_def empty_host_def example_platform_def
        getExtensionMetadata_result_def fetchExtensionMetadata_result_def)
qed


section \<open>Properties of the install pipeline\<close>

text \<open>
  Claim C8. When the extensions directory is not set, \<open>fetchAndInstallExtension\<close>
  returns the error message and does nothing but write it to the stream, if there is
  one: the message starts with \<open>E:\<close> and is one line; the file system is as before, no
  request has been issued, and nothing has been logged.
\<close>

theorem unset_directory_single_error_line:
  assumes "unset extensionsPath"
  shows "fetchAndInstallExtension pf extensionsPath ident stream s
           = (NoExtensionsDirectory no_directory_message,
              s\<lparr>world := (world s)\<lparr>sink := sink (world s) @ (if stream then [no_directory_message] else [])\<rparr>\<rparr>)
       \<and> take 3 no_directory_message = ''E: ''
       \<and> filter (\<lambda>c. c = CHR 0x0A) no_directory_message = [CHR 0x0A]
       \<and> last no_directory_message = CHR 0x0A
       \<and> disk (world (snd (fetchAndInstallExtension pf extensionsPath ident stream s))) = disk (world s)
       \<and> requests (world (snd (fetchAndInstallExtension pf extensionsPath ident stream s)))
           = requests (world s)"
  using assms
  by (simp add: fetchAndInstallExtension_def writeStream_def no_directory_message_def newline_def)

theorem unset_directory_single_error_line_witness:
  "unset None
   \<and> fetchAndInstallExtension example_platform None ''org.example.welcomer'' True (install_state Map.empty)
       = (NoExtensionsDirectory no_directory_message,
          empty_host \<lparr> disk = Map.empty, sink = [no_directory_message], clock = 0, requests = [],
                       cache_store = Map.empty \<rparr>)"
proof -
  have h: "unset None"
    by (simp add: unset_def)
  show ?thesis
    using h unset_directory_single_error_line [OF h, of example_platform "''org.example.welcomer''" True "install_state Map.empty"]
    by (simp add: install_state_def empty_host_def)
qed


text \<open>
  Claim C7, as the code has it. \<open>installExtension\<close> makes no check of the destination
  of its own; it calls \<open>fs.rename\<close>. For every platform: when the temporary directory is
  there, the archive is unpacked and the rename fails, the exception is logged, the
  line \<open>E: Failed to set up extension\<close> is the last one written to the stream, and the
  method returns without the cleanup step, the file system being as it was before the
  rename.
\<close>

theorem failed_rename_reported_and_install_aborted:
  assumes "extensionsPath = Some root" and "root \<noteq> []"
    and "systemPrefix pf (''tmp/'' @ info_id extension @ ''-'' @ info_version extension) True
           (disk (world s)) = (Inr tmp, d1)"
    and "tar_x pf filePath tmp d1 = (None, d2)"
    and "fs_rename pf (path_join tmp (info_shortName extension @ ''-'' @ info_version extension))
           (path_join root (info_shortName extension)) d2 = Inl e"
  shows "installExtension pf extensionsPath filePath extension stream s
     = (None,
        s\<lparr>logs := logs s @ [(Error, [e])],
          world := (world s)\<lparr>disk := d2,
            sink := sink (world s) @
              (if stream
               then [''Preparing to unpack '' @ titled extension @ ''...'' @ newline,
                     ''Unpacking '' @ titled extension @ ''...'' @ newline,
                     ''Setting up '' @ titled extension @ ''...'' @ newline,
                     ''E: Failed to set up extension: '' @ info_id extension @ newline]
               else [])\<rparr>\<rparr>)"
  using assms
  by (simp add: installExtension_def on_disk_def writeStream_def logger_def)

theorem failed_rename_reported_and_install_aborted_witness:
  "installExtension example_platform (Some ''/ext'') ''/sudobot/tmp/org.example.welcomer-1.0.0.tar.gz''
      welcomer True (install_state installed_dirs)
   = (None,
      (install_state installed_dirs)
        \<lparr>logs := [(Error, [ENOTEMPTY])],
         world := (world (install_state installed_dirs))
           \<lparr>disk := installed_dirs
               (''/sudobot/tmp/org.example.welcomer-1.0.0'' \<mapsto> [''welcomer-1.0.0''],
                ''/sudobot/tmp/org.example.welcomer-1.0.0/welcomer-1.0.0'' \<mapsto> [''extension.json'']),
            sink := [''Preparing to unpack Welcomer (1.0.0)...'' @ newline,
                     ''Unpacking Welcomer (1.0.0)...'' @ newline,
                     ''Setting up Welcomer (1.0.0)...'' @ newline,
                     ''E: Failed to set up extension: org.example.welcomer'' @ newline]\<rparr>\<rparr>)"
proof -
  let ?tmp = "''/sudobot/tmp/org.example.welcomer-1.0.0''"
  let ?d1 = "installed_dirs(?tmp \<mapsto> [])"
  let ?d2 = "installed_dirs
               (''/sudobot/tmp/org.example.welcomer-1.0.0'' \<mapsto> [''welcomer-1.0.0''],
                ''/sudobot/tmp/org.example.welcomer-1.0.0/welcomer-1.0.0'' \<mapsto> [''extension.json''])"
  have h1: "Some ''/ext'' = Some ''/ext''" by simp
  have h2: "''/ext'' \<noteq> []" by simp
  have h3: "systemPrefix example_platform
      (''tmp/'' @ info_id welcomer @ ''-'' @ info_version welcomer) True
      (disk (world (install_state installed_dirs))) = (Inr ?tmp, ?d1)"
    by (simp add: example_platform_def welcomer_def install_state_def empty_host_def installed_dirs_def)
  have h4: "tar_x example_platform ''/sudobot/tmp/org.example.welcomer-1.0.0.tar.gz'' ?tmp ?d1
      = (None, ?d2)"
    by (simp add: example_platform_def names_in_def path_join_def)
  have h5: "fs_rename example_platform
      (path_join ?tmp (info_shortName welcomer @ ''-'' @ info_version welcomer))
      (path_join ''/ext'' (info_shortName welcomer)) ?d2 = Inl ENOTEMPTY"
    by (simp add: example_platform_def rename_dir_def path_join_def welcomer_def installed_dirs_def)
  show ?thesis
    using failed_rename_reported_and_install_aborted [OF h1 h2 h3 h4 h5, of True]
    by (simp add: titled_def welcomer_def install_state_def empty_host_def)
qed


text \<open>A destination that exists as an empty directory: the rename succeeds, no line
  starting with \<open>E:\<close> is written, the method goes on to the cleanup, and the destination
  has been replaced.\<close>

theorem existing_empty_destination_replaced:
  "empty_destination_dirs ''/ext/welcomer'' = Some []
   \<and> sink (world (snd (installExtension example_platform (Some ''/ext'')
        ''/sudobot/tmp/org.example.welcomer-1.0.0.tar.gz'' welcomer True
        (install_state empty_destination_dirs))))
     = [''Preparing to unpack Welcomer (1.0.0)...'' @ newline,
        ''Unpacking Welcomer (1.0.0)...'' @ newline,
        ''Setting up Welcomer (1.0.0)...'' @ newline,
        ''Cleaning up caches and temporary files...'' @ newline]
   \<and> disk (world (snd (installExtension example_platform (Some ''/ext'')
        ''/sudobot/tmp/org.example.welcomer-1.0.0.tar.gz'' welcomer True
        (install_state empty_destination_dirs)))) ''/ext/welcomer''
     = Some [''extension.json'']
   \<and> (''E: Failed to set up extension: org.example.welcomer'' @ newline)
       \<notin> set (sink (world (snd (installExtension example_platform (Some ''/ext'')
           ''/sudobot/tmp/org.example.welcomer-1.0.0.tar.gz'' welcomer True
           (install_state empty_destination_dirs)))))"
  by (simp add: installExtension_def on_disk_def writeStream_def logger_def example_platform_def
      welcomer_def install_state_def empty_host_def empty_destination_dirs_def rename_dir_def
      path_join_def names_in_def titled_def)


end
